theory Spec2Isabelle
  imports Main "HOL-Library.Char_ord" "HOL-Library.List_Lexorder"
begin

section \<open>Resources (resources.tsx)\<close>

text \<open>
  Strings are \<^typ>\<open>string\<close>; one \<^typ>\<open>char\<close> stands for one character of the
  JavaScript string (the unit that \<^verbatim>\<open>for (let c of label)\<close> visits and that string
  comparison compares). With \<open>Char_ord\<close> and \<open>List_Lexorder\<close> the order on
  \<^typ>\<open>string\<close> is the lexicographic order by character code, which is how
  JavaScript orders strings.
\<close>

subsection \<open>Primary keys\<close>

text \<open>
  The two resource classes, with the fields that are strings or booleans. The numeric
  coordinates of an annotation (\<^verbatim>\<open>min_h\<close>, \<^verbatim>\<open>max_h\<close>, \<^verbatim>\<open>min_v\<close>, \<^verbatim>\<open>max_v\<close>,
  \<^verbatim>\<open>page_num\<close>) are JavaScript numbers that no operation modelled here reads.
  The field \<^verbatim>\<open>id\<close> is written \<open>id'\<close>; a variable that the source names like a field
  is written with a prime too (\<open>label'\<close>).
\<close>

record LayerResource =
  id' :: string
  paperId :: string
  kind :: string
  name :: string
  training :: bool

record AnnotationResource =
  id' :: string
  paperId :: string
  layerId :: string
  label :: string

definition LayerResource_pk :: "LayerResource \<Rightarrow> string" where
  "LayerResource_pk this = LayerResource.paperId this @ ''-'' @ LayerResource.id' this"

definition AnnotationResource_pk :: "AnnotationResource \<Rightarrow> string" where
  "AnnotationResource_pk this =
     AnnotationResource.paperId this @ ''-'' @ AnnotationResource.layerId this
       @ ''-'' @ AnnotationResource.id' this"

subsection \<open>Parameter objects and thrown errors\<close>

text \<open>
  A parameter object (\<^verbatim>\<open>urlParams\<close>, \<^verbatim>\<open>searchParams\<close>) is the list of its own
  enumerable properties, in the order \<^verbatim>\<open>Object.keys\<close> gives them, each value already
  converted to a string (template literals and \<^verbatim>\<open>URLSearchParams\<close> both convert).
  An object has each key once: the lists that are objects are those with
  \<open>distinct (map fst ps)\<close>. An argument that is \<^verbatim>\<open>undefined\<close> is \<open>None\<close>.
\<close>

type_synonym params = "(string \<times> string) list"

datatype error = Error string

text \<open>Reading a property for a template literal: an absent property reads
  \<^verbatim>\<open>undefined\<close>, which the template prints as the word.\<close>

definition template :: "string option \<Rightarrow> string" where
  "template v = (case v of None \<Rightarrow> ''undefined'' | Some s \<Rightarrow> s)"

definition property :: "params \<Rightarrow> string \<Rightarrow> string option" where
  "property ps k = map_of ps k"

subsection \<open>URLSearchParams\<close>

text \<open>
  The browser's \<^verbatim>\<open>URLSearchParams\<close>: built from a record it holds the name/value
  pairs in the record's key order; \<^verbatim>\<open>sort()\<close> is a stable sort by name;
  \<^verbatim>\<open>toString()\<close> is the \<^verbatim>\<open>application/x-www-form-urlencoded\<close> serialiser:
  a space becomes \<^verbatim>\<open>+\<close>, the characters \<^verbatim>\<open>* - . _\<close>, digits and ASCII letters stay,
  every other character becomes the percent-encoded bytes of its UTF-8 encoding
  (characters below 256: one byte below 128, two bytes from 128 on).
\<close>

definition URLSearchParams :: "params \<Rightarrow> params" where
  "URLSearchParams init = init"

definition URLSearchParams_sort :: "params \<Rightarrow> params" where
  "URLSearchParams_sort ps = sort_key fst ps"

definition hex_digit :: "nat \<Rightarrow> char" where
  "hex_digit n = ''0123456789ABCDEF'' ! (n mod 16)"

definition percent_byte :: "nat \<Rightarrow> string" where
  "percent_byte b = [CHR ''%'', hex_digit (b div 16), hex_digit (b mod 16)]"

definition utf8_bytes :: "char \<Rightarrow> nat list" where
  "utf8_bytes c =
     (let n = (of_char c :: nat)
      in if n < 128 then [n] else [192 + n div 64, 128 + n mod 64])"

definition urlencoded_plain :: "char \<Rightarrow> bool" where
  "urlencoded_plain c \<longleftrightarrow>
     c \<in> set ''*-._0123456789ABCDEFGHIJKLMNOPQRSTUVWXYZabcdefghijklmnopqrstuvwxyz''"

definition urlencode_char :: "char \<Rightarrow> string" where
  "urlencode_char c =
     (if c = CHR '' '' then ''+''
      else if urlencoded_plain c then [c]
      else concat (map percent_byte (utf8_bytes c)))"

definition urlencode :: "string \<Rightarrow> string" where
  "urlencode s = concat (map urlencode_char s)"

fun join_amp :: "string list \<Rightarrow> string" where
  "join_amp [] = []"
| "join_amp [x] = x"
| "join_amp (x # y # ys) = x @ ''&'' @ join_amp (y # ys)"

definition URLSearchParams_toString :: "params \<Rightarrow> string" where
  "URLSearchParams_toString ps =
     join_amp (map (\<lambda>(k, v). urlencode k @ ''='' @ urlencode v) ps)"

subsection \<open>LayerResource.url and LayerResource.listUrl\<close>

text \<open>
  \<^verbatim>\<open>this.pk(urlParams)\<close> in \<^verbatim>\<open>url\<close> is the static \<^verbatim>\<open>pk\<close> of the library's
  \<^verbatim>\<open>Resource\<close> class, which applies the instance method \<^verbatim>\<open>pk()\<close> of the class to
  the parameter object. With the \<^verbatim>\<open>pk()\<close> of this file that is a concatenation of
  strings, in which an absent property reads as the word \<^verbatim>\<open>undefined\<close>. Its result
  type is \<^verbatim>\<open>string | undefined\<close>, here \<^typ>\<open>string option\<close>.
\<close>

definition LayerResource_static_pk :: "params \<Rightarrow> string option" where
  "LayerResource_static_pk ps =
     Some (template (property ps ''paperId'') @ ''-'' @ template (property ps ''id''))"

definition LayerResource_url :: "params option \<Rightarrow> error + string" where
  "LayerResource_url urlParams =
     (case urlParams of
        Some ps \<Rightarrow>
          if LayerResource_static_pk ps \<noteq> None
          then Inr (''http://localhost:8000/papers/'' @ template (property ps ''paperId'')
                      @ ''/layers/'' @ template (property ps ''id''))
          else Inl (Error ''Layers require paperId to retrieve'')
      | None \<Rightarrow> Inl (Error ''Layers require paperId to retrieve''))"

text \<open>The rest pattern \<^verbatim>\<open>{ paperId, ...realSearchParams }\<close>: the properties other than
  the named ones, in their order.\<close>

definition rest_without :: "string list \<Rightarrow> params \<Rightarrow> params" where
  "rest_without ks ps = filter (\<lambda>(k, v). k \<notin> set ks) ps"

definition LayerResource_listUrl :: "params option \<Rightarrow> error + string" where
  "LayerResource_listUrl searchParams =
     (case searchParams of
        Some ps \<Rightarrow>
          if length ps \<noteq> 0
          then (let paperId = property ps ''paperId'';
                    realSearchParams = rest_without [''paperId''] ps;
                    params = URLSearchParams_sort (URLSearchParams realSearchParams)
                in Inr (''http://localhost:8000/papers/'' @ template paperId
                          @ ''/layers/?'' @ URLSearchParams_toString params))
          else Inl (Error ''Layers require paperId to retrieve'')
      | None \<Rightarrow> Inl (Error ''Layers require paperId to retrieve''))"

subsection \<open>AnnotationResource.url, AnnotationResource.listUrl and updateShape\<close>

definition AnnotationResource_static_pk :: "params \<Rightarrow> string option" where
  "AnnotationResource_static_pk ps =
     Some (template (property ps ''paperId'') @ ''-'' @ template (property ps ''layerId'')
             @ ''-'' @ template (property ps ''id''))"

definition AnnotationResource_url :: "params option \<Rightarrow> error + string" where
  "AnnotationResource_url urlParams =
     (case urlParams of
        Some ps \<Rightarrow>
          if AnnotationResource_static_pk ps \<noteq> None
          then Inr (''http://localhost:8000/papers/'' @ template (property ps ''paperId'')
                      @ ''/layers/'' @ template (property ps ''layerId'')
                      @ ''/bbx/'' @ template (property ps ''id''))
          else Inl (Error ''Layers require paperId and layerId to retrieve'')
      | None \<Rightarrow> Inl (Error ''Layers require paperId and layerId to retrieve''))"

definition AnnotationResource_listUrl :: "params option \<Rightarrow> error + string" where
  "AnnotationResource_listUrl searchParams =
     (case searchParams of
        Some ps \<Rightarrow>
          if length ps \<noteq> 0
          then (let paperId = property ps ''paperId'';
                    layerId = property ps ''layerId'';
                    realSearchParams = rest_without [''paperId'', ''layerId''] ps;
                    params = URLSearchParams_sort (URLSearchParams realSearchParams)
                in Inr (''http://localhost:8000/papers/'' @ template paperId
                          @ ''/layers/'' @ template layerId
                          @ ''/bbx/?'' @ URLSearchParams_toString params))
          else Inl (Error ''Layers require paperId and layerId to retrieve'')
      | None \<Rightarrow> Inl (Error ''Layers require paperId and layerId to retrieve''))"

text \<open>
  \<^verbatim>\<open>optimisticUpdate: (params, body) => ({ id: params.id, ...body })\<close>.
  Here an object is a map from property names to values; a value is a JavaScript
  value, of which \<^verbatim>\<open>undefined\<close> is one (what \<^verbatim>\<open>params.id\<close> reads when \<^verbatim>\<open>params\<close>
  has no \<^verbatim>\<open>id\<close>). The object literal first defines \<^verbatim>\<open>id\<close>, then the spread
  defines every own property of \<^verbatim>\<open>body\<close>, a later definition replacing an earlier one.
\<close>

datatype jsval = Undefined | Str string | Num int | Bool bool

type_synonym jsobject = "string \<rightharpoonup> jsval"

definition member :: "jsobject \<Rightarrow> string \<Rightarrow> jsval" where
  "member obj k = (case obj k of None \<Rightarrow> Undefined | Some v \<Rightarrow> v)"

definition optimisticUpdate :: "jsobject \<Rightarrow> jsobject \<Rightarrow> jsobject" where
  "optimisticUpdate params body = [''id'' \<mapsto> member params ''id''] ++ body"

text \<open>
  \<^verbatim>\<open>updateShape\<close> returns the shape of the library
  (\<^verbatim>\<open>super.updateShape()\<close>) with its \<^verbatim>\<open>options\<close> replaced by the fetch options of the
  class (\<^verbatim>\<open>this.getFetchOptions()\<close>) and the function above as their
  \<^verbatim>\<open>optimisticUpdate\<close>. The two values of the library are parameters. The library
  calls the function of the shape with the parameters and the body of every request
  made through this shape, and puts the object it returns into its cache.
\<close>

record ('s, 'o) mutate_shape =
  super_updateShape :: 's
  getFetchOptions :: 'o
  options_optimisticUpdate :: "jsobject \<Rightarrow> jsobject \<Rightarrow> jsobject"

definition AnnotationResource_updateShape :: "'s \<Rightarrow> 'o \<Rightarrow> ('s, 'o) mutate_shape" where
  "AnnotationResource_updateShape super_shape fetch_options =
     \<lparr>super_updateShape = super_shape, getFetchOptions = fetch_options,
      options_optimisticUpdate = optimisticUpdate\<rparr>"

section \<open>The label menu (ClassHeaderSelectTag, ModelHeaderSelectTag)\<close>

subsection \<open>The object of shortcuts\<close>

text \<open>
  \<^verbatim>\<open>shortcuts\<close> is an object whose keys are single characters and whose values are
  labels. It is the list of its properties in the order JavaScript enumerates them
  (\<^verbatim>\<open>for (let c in shortcuts)\<close>, and lodash's \<^verbatim>\<open>findKey\<close>, which visits
  \<^verbatim>\<open>Object.keys\<close>): keys that are array indices first, ascending, then the other keys
  in the order of their creation. Of the one-character keys the array indices are the
  ten digits.
\<close>

type_synonym shortcut_object = "(char \<times> string) list"

definition is_array_index :: "char \<Rightarrow> bool" where
  "is_array_index c \<longleftrightarrow> c \<in> set ''0123456789''"

text \<open>\<^verbatim>\<open>c in sc\<close>. No property that an object inherits has a one-character name, so
  the test is for an own property.\<close>

definition has_property :: "char \<Rightarrow> shortcut_object \<Rightarrow> bool" where
  "has_property c sc \<longleftrightarrow> c \<in> set (map fst sc)"

text \<open>\<^verbatim>\<open>shortcuts[c]\<close>.\<close>

definition lookup :: "shortcut_object \<Rightarrow> char \<Rightarrow> string option" where
  "lookup sc c = map_of sc c"

text \<open>\<^verbatim>\<open>{ ...sc, [c]: label }\<close>: the properties of \<^verbatim>\<open>sc\<close> in their order, then
  \<^verbatim>\<open>c\<close> defined: an existing key keeps its place and takes the new value, a new
  digit key goes to its place among the digits, any other new key goes last.\<close>

fun spread_with :: "shortcut_object \<Rightarrow> char \<Rightarrow> string \<Rightarrow> shortcut_object" where
  "spread_with [] c label' = [(c, label')]"
| "spread_with ((k, v) # sc) c label' =
     (if k = c then (c, label') # sc
      else if is_array_index c \<and> (\<not> is_array_index k \<or> c < k)
      then (c, label') # (k, v) # sc
      else (k, v) # spread_with sc c label')"

subsection \<open>The reduction over the labels\<close>

text \<open>
  The body of the reducer: the \<^verbatim>\<open>for (let c of label)\<close> loop returns from the reducer
  at the first character that is not a key of \<^verbatim>\<open>sc\<close>; \<open>None\<close> is the loop running to
  its end.
\<close>

fun for_of_label :: "string \<Rightarrow> shortcut_object \<Rightarrow> string \<Rightarrow> shortcut_object option" where
  "for_of_label [] sc label' = None"
| "for_of_label (c # cs) sc label' =
     (if \<not> has_property c sc then Some (spread_with sc c label')
      else for_of_label cs sc label')"

text \<open>The console is the list of the lines written to it, each the list of the
  arguments of one \<^verbatim>\<open>console.log\<close>. The state of the reduction is the accumulator
  with the console.\<close>

type_synonym console = "string list list"

definition reducer :: "shortcut_object \<times> console \<Rightarrow> string \<Rightarrow> shortcut_object \<times> console" where
  "reducer st label' =
     (case for_of_label label' (fst st) label' of
        Some sc' \<Rightarrow> (sc', snd st)
      | None \<Rightarrow> (fst st, snd st @ [[''Warning: unable to deduce shortcut for '', label']]))"

definition reduce_labels :: "string list \<Rightarrow> shortcut_object \<times> console" where
  "reduce_labels labels = foldl reducer ([], []) labels"

definition shortcuts :: "string list \<Rightarrow> shortcut_object" where
  "shortcuts labels = fst (reduce_labels labels)"

subsection \<open>highlightShortcut and the buttons\<close>

text \<open>lodash's \<^verbatim>\<open>findKey(object, predicate)\<close>: the first key, in the order of
  \<^verbatim>\<open>Object.keys\<close>, whose value satisfies the predicate, \<^verbatim>\<open>undefined\<close> when there is
  none.\<close>

definition findKey :: "shortcut_object \<Rightarrow> (string \<Rightarrow> bool) \<Rightarrow> char option" where
  "findKey object predicate = map_option fst (find (\<lambda>(k, v). predicate v) object)"

text \<open>An element of the array that \<^verbatim>\<open>highlightShortcut\<close> returns: the character
  itself, or \<^verbatim>\<open><b key={c}>[{c}]</b>\<close>.\<close>

datatype node = Plain char | Bold char

text \<open>The loop of \<^verbatim>\<open>highlightShortcut\<close>, with the variable \<^verbatim>\<open>shortcut\<close> as its
  state; \<open>None\<close> is \<^verbatim>\<open>undefined\<close> and \<^verbatim>\<open>null\<close>, neither of which \<^verbatim>\<open>==\<close> a
  character.\<close>

fun highlight_loop :: "char option \<Rightarrow> string \<Rightarrow> node list" where
  "highlight_loop shortcut [] = []"
| "highlight_loop shortcut (c # cs) =
     (if Some c = shortcut then Bold c # highlight_loop None cs
      else Plain c # highlight_loop shortcut cs)"

definition highlightShortcut :: "shortcut_object \<Rightarrow> string \<Rightarrow> node list" where
  "highlightShortcut sc value = highlight_loop (findKey sc (\<lambda>v. v = value)) value"

text \<open>The content of the buttons of \<^verbatim>\<open>ClassHeaderSelectTag\<close>, one for each label.\<close>

definition buttons :: "string list \<Rightarrow> node list list" where
  "buttons labels = map (highlightShortcut (shortcuts labels)) labels"

section \<open>Creating a layer (ClassHeaderCreateLayer, ModelHeaderCreateLayer)\<close>

text \<open>
  What the two components change, as one state: the library's cache of the layer lists
  (the result of \<^verbatim>\<open>listShape()\<close> for each \<^verbatim>\<open>{ paperId }\<close>; \<open>None\<close> is a list
  not in the cache, \<^verbatim>\<open>undefined\<close>), the requests handed to the fetcher of
  \<^verbatim>\<open>createShape()\<close> (the parameters' \<^verbatim>\<open>paperId\<close> and the body), the calls of the
  parent's \<^verbatim>\<open>onDisplayChange\<close>, the state variable \<^verbatim>\<open>newLayer\<close> of
  \<^verbatim>\<open>AnnotationClass\<close>, and the arguments of the calls of \<^verbatim>\<open>alert.error\<close>.
\<close>

record ui_state =
  cache :: "string \<Rightarrow> string list option"
  posted :: "(string \<times> jsobject) list"
  displayChanges :: "(string \<times> bool) list"
  newLayer :: "string option"
  alerts :: "jsval list"

text \<open>
  How the server's answer reaches the component. A fulfilled request gives the primary
  key of the new layer, which the library passes to the update functions as
  \<^verbatim>\<open>newAnnotation\<close>, and the \<^verbatim>\<open>id\<close> of the result. A rejected one gives the error
  \<^verbatim>\<open>e\<close>: either \<^verbatim>\<open>e.response.json()\<close> yields an object, or that expression itself
  fails (no response, or a body that is not JSON).
\<close>

datatype rejection = Http_json jsobject | Unreadable

datatype fetch_outcome = Resolved string string | Rejected rejection

text \<open>The update function for the cached list:
  \<^verbatim>\<open>[...(currentAnnotations || []), newAnnotation]\<close>. An array is never falsy.\<close>

definition updater :: "string \<Rightarrow> string list option \<Rightarrow> string list" where
  "updater newAnnotation currentAnnotations =
     (case currentAnnotations of None \<Rightarrow> [] | Some xs \<Rightarrow> xs) @ [newAnnotation]"

text \<open>The body of the request; \<open>key\<close> is \<^verbatim>\<open>class\<close> in \<^verbatim>\<open>ClassHeaderCreateLayer\<close> and
  \<^verbatim>\<open>kind\<close> in \<^verbatim>\<open>ModelHeaderCreateLayer\<close>. The parameter \<^verbatim>\<open>from?: string\<close> left out
  is \<^verbatim>\<open>undefined\<close>.\<close>

definition optional :: "string option \<Rightarrow> jsval" where
  "optional v = (case v of None \<Rightarrow> Undefined | Some s \<Rightarrow> Str s)"

definition create_body :: "string \<Rightarrow> string \<Rightarrow> string \<Rightarrow> string option \<Rightarrow> jsobject" where
  "create_body key classId name' from' =
     [key \<mapsto> Str classId, ''training'' \<mapsto> Bool False, ''from'' \<mapsto> optional from',
      ''name'' \<mapsto> Str name']"

text \<open>
  \<^verbatim>\<open>createAnnotationLayer\<close> of \<^verbatim>\<open>ClassHeaderCreateLayer\<close>. The fetcher sends the request;
  when it is fulfilled the library calls the update function on the cached list of
  \<^verbatim>\<open>resourceId\<close> and stores what it returns. Here the update function first calls
  \<^verbatim>\<open>props.onNewLayer\<close>, which is \<^verbatim>\<open>onNewLayer\<close> of \<^verbatim>\<open>AnnotationClass\<close>. When the
  request is rejected the promise is rejected with the error: \<open>Inl\<close>.
\<close>

definition onNewLayer :: "string \<Rightarrow> ui_state \<Rightarrow> ui_state" where
  "onNewLayer ident st =
     st\<lparr>displayChanges := displayChanges st @ [(ident, True)], newLayer := Some ident\<rparr>"

definition ClassHeaderCreateLayer_createAnnotationLayer ::
    "string \<Rightarrow> string \<Rightarrow> fetch_outcome \<Rightarrow> string \<Rightarrow> string option \<Rightarrow> ui_state
       \<Rightarrow> (rejection \<times> ui_state) + ui_state" where
  "ClassHeaderCreateLayer_createAnnotationLayer paperId' classId outcome name' from' st =
     (let st1 = st\<lparr>posted := posted st @ [(paperId', create_body ''class'' classId name' from')]\<rparr>
      in case outcome of
           Resolved newAnnotation result_id \<Rightarrow>
             (let st2 = onNewLayer newAnnotation st1
              in Inr (st2\<lparr>cache := (cache st2)
                         (paperId' := Some (updater newAnnotation (cache st2 paperId')))\<rparr>))
         | Rejected e \<Rightarrow> Inl (e, st1))"

text \<open>
  \<^verbatim>\<open>createAnnotationLayer\<close> of \<^verbatim>\<open>ModelHeaderCreateLayer\<close>: the update function only
  builds the list, and \<^verbatim>\<open>props.onDisplayChange(result.id, true)\<close> follows the
  \<^verbatim>\<open>await\<close>.
\<close>

definition ModelHeaderCreateLayer_createAnnotationLayer ::
    "string \<Rightarrow> string \<Rightarrow> fetch_outcome \<Rightarrow> string \<Rightarrow> string option \<Rightarrow> ui_state
       \<Rightarrow> (rejection \<times> ui_state) + ui_state" where
  "ModelHeaderCreateLayer_createAnnotationLayer paper_id model_id outcome name' from' st =
     (let st1 = st\<lparr>posted := posted st @ [(paper_id, create_body ''kind'' model_id name' from')]\<rparr>
      in case outcome of
           Resolved newAnnotation result_id \<Rightarrow>
             (let st2 = st1\<lparr>cache := (cache st1)
                          (paper_id := Some (updater newAnnotation (cache st1 paper_id)))\<rparr>
              in Inr (st2\<lparr>displayChanges := displayChanges st2 @ [(result_id, True)]\<rparr>))
         | Rejected e \<Rightarrow> Inl (e, st1))"

text \<open>The buttons \<^verbatim>\<open>+layer\<close> and \<^verbatim>\<open>+new\<close>:
  \<^verbatim>\<open>onClick={() => createAnnotationLayer("Untitled")}\<close>.\<close>

definition ClassHeaderCreateLayer_button_onClick ::
    "string \<Rightarrow> string \<Rightarrow> fetch_outcome \<Rightarrow> ui_state \<Rightarrow> (rejection \<times> ui_state) + ui_state" where
  "ClassHeaderCreateLayer_button_onClick paperId' classId outcome st =
     ClassHeaderCreateLayer_createAnnotationLayer paperId' classId outcome ''Untitled'' None st"

definition ModelHeaderCreateLayer_button_onClick ::
    "string \<Rightarrow> string \<Rightarrow> fetch_outcome \<Rightarrow> ui_state \<Rightarrow> (rejection \<times> ui_state) + ui_state" where
  "ModelHeaderCreateLayer_button_onClick paper_id model_id outcome st =
     ModelHeaderCreateLayer_createAnnotationLayer paper_id model_id outcome ''Untitled'' None st"

text \<open>
  The \<^verbatim>\<open>onChange\<close> handler of the select control, the same text in both components;
  \<open>create\<close> is the component's \<^verbatim>\<open>createAnnotationLayer\<close>. The \<^verbatim>\<open>catch\<close> handler reads
  \<^verbatim>\<open>e.response.json()\<close> and alerts its \<^verbatim>\<open>message\<close>; when that read fails the handler
  ends there, before the two assignments that follow the \<^verbatim>\<open>await\<close>.
\<close>

record select_target =
  disabled :: bool
  value' :: string

definition select_onChange ::
    "(string \<Rightarrow> string option \<Rightarrow> ui_state \<Rightarrow> (rejection \<times> ui_state) + ui_state)
       \<Rightarrow> select_target \<times> ui_state \<Rightarrow> select_target \<times> ui_state" where
  "select_onChange create ts =
     (let target = fst ts; st = snd ts
      in if value' target \<noteq> ''''
         then (let target1 = target\<lparr>disabled := True\<rparr>
               in case create (''from.'' @ value' target1) (Some (value' target1)) st of
                    Inr st' \<Rightarrow> (target1\<lparr>disabled := False, value' := ''''\<rparr>, st')
                  | Inl (e, st') \<Rightarrow>
                      (case e of
                         Http_json error \<Rightarrow>
                           (target1\<lparr>disabled := False, value' := ''''\<rparr>,
                            st'\<lparr>alerts := alerts st' @ [member error ''message'']\<rparr>)
                       | Unreadable \<Rightarrow> (target1, st')))
         else (target, st))"

definition ClassHeaderCreateLayer_select_onChange ::
    "string \<Rightarrow> string \<Rightarrow> fetch_outcome \<Rightarrow> select_target \<times> ui_state \<Rightarrow> select_target \<times> ui_state" where
  "ClassHeaderCreateLayer_select_onChange paperId' classId outcome =
     select_onChange (ClassHeaderCreateLayer_createAnnotationLayer paperId' classId outcome)"

definition ModelHeaderCreateLayer_select_onChange ::
    "string \<Rightarrow> string \<Rightarrow> fetch_outcome \<Rightarrow> select_target \<times> ui_state \<Rightarrow> select_target \<times> ui_state" where
  "ModelHeaderCreateLayer_select_onChange paper_id model_id outcome =
     select_onChange (ModelHeaderCreateLayer_createAnnotationLayer paper_id model_id outcome)"

section \<open>Properties of the resources\<close>

subsection \<open>Primary keys\<close>

text \<open>
  C3. \<^verbatim>\<open>LayerResource.pk\<close> returns \<^verbatim>\<open>paperId + "-" + id\<close> and
  \<^verbatim>\<open>AnnotationResource.pk\<close> returns \<^verbatim>\<open>paperId + "-" + layerId + "-" + id\<close>: the layer
  with paperId "P1" and id "L1" has the primary key "P1-L1", the annotation with
  paperId "P1", layerId "L1" and id "A1" has the primary key "P1-L1-A1", whatever
  the other fields hold.
\<close>

theorem pk_composition:
  "LayerResource_pk \<lparr>LayerResource.id' = ''L1'', paperId = ''P1'', kind = k, name = n,
       training = t\<rparr> = ''P1-L1''
   \<and> AnnotationResource_pk \<lparr>AnnotationResource.id' = ''A1'', paperId = ''P1'',
       layerId = ''L1'', label = lb\<rparr> = ''P1-L1-A1''
   \<and> LayerResource_pk layer = LayerResource.paperId layer @ ''-'' @ LayerResource.id' layer
   \<and> AnnotationResource_pk annotation =
       AnnotationResource.paperId annotation @ ''-'' @ AnnotationResource.layerId annotation
         @ ''-'' @ AnnotationResource.id' annotation"
  by (simp add: LayerResource_pk_def AnnotationResource_pk_def)

subsection \<open>What the URL builders throw\<close>

lemma url_id_only:
  "LayerResource_url (Some [(''id'', ''L1'')])
     = Inr ''http://localhost:8000/papers/undefined/layers/L1''"
  by code_simp

lemma url_empty:
  "LayerResource_url (Some []) = Inr ''http://localhost:8000/papers/undefined/layers/undefined''"
  by code_simp

lemma annotation_url_no_layer:
  "AnnotationResource_url (Some [(''paperId'', ''P1''), (''id'', ''A1'')])
     = Inr ''http://localhost:8000/papers/P1/layers/undefined/bbx/A1''"
  by code_simp

lemma listUrl_kind_only:
  "LayerResource_listUrl (Some [(''kind'', ''x'')])
     = Inr ''http://localhost:8000/papers/undefined/layers/?kind=x''"
  by code_simp

lemma listUrl_paper_only:
  "AnnotationResource_listUrl (Some [(''paperId'', ''P1'')])
     = Inr ''http://localhost:8000/papers/P1/layers/undefined/bbx/?''"
  by code_simp

text \<open>
  C1 as it is stated fails, for the detail URL builders and for the list URL builders.
  \<^verbatim>\<open>LayerResource.url\<close> with a parameter object that has no \<^verbatim>\<open>paperId\<close>, or no
  property at all, and \<^verbatim>\<open>LayerResource.listUrl\<close> with one that has some property but
  no \<^verbatim>\<open>paperId\<close>, return a URL with the word \<^verbatim>\<open>undefined\<close> in the place of the
  paper. \<^verbatim>\<open>AnnotationResource.url\<close> and \<^verbatim>\<open>AnnotationResource.listUrl\<close> with a
  \<^verbatim>\<open>paperId\<close> but no \<^verbatim>\<open>layerId\<close> return a URL with \<^verbatim>\<open>undefined\<close> in the place
  of the layer. None of them throws.
\<close>

theorem missing_ancestor_counterexample:
  "property [(''id'', ''L1'')] ''paperId'' = None
   \<and> LayerResource_url (Some [(''id'', ''L1'')])
       = Inr ''http://localhost:8000/papers/undefined/layers/L1''
   \<and> LayerResource_url (Some [])
       = Inr ''http://localhost:8000/papers/undefined/layers/undefined''
   \<and> property [(''kind'', ''x'')] ''paperId'' = None
   \<and> LayerResource_listUrl (Some [(''kind'', ''x'')])
       = Inr ''http://localhost:8000/papers/undefined/layers/?kind=x''
   \<and> property [(''paperId'', ''P1''), (''id'', ''A1'')] ''layerId'' = None
   \<and> AnnotationResource_url (Some [(''paperId'', ''P1''), (''id'', ''A1'')])
       = Inr ''http://localhost:8000/papers/P1/layers/undefined/bbx/A1''
   \<and> property [(''paperId'', ''P1'')] ''layerId'' = None
   \<and> AnnotationResource_listUrl (Some [(''paperId'', ''P1'')])
       = Inr ''http://localhost:8000/papers/P1/layers/undefined/bbx/?''"
  using url_id_only url_empty annotation_url_no_layer listUrl_kind_only listUrl_paper_only
  by (simp add: property_def)

text \<open>
  C1, amended. The detail URL builders throw their error when they are called without
  a parameter object, and the list URL builders throw it when they are called without
  a parameter object or with an empty one. With a parameter object that holds the
  ancestor ids, and an \<^verbatim>\<open>id\<close> for the detail URL, the builders return the URL that has
  these ids in its path.
\<close>

theorem url_builders_guard:
  "LayerResource_url None = Inl (Error ''Layers require paperId to retrieve'')
   \<and> LayerResource_listUrl None = Inl (Error ''Layers require paperId to retrieve'')
   \<and> LayerResource_listUrl (Some []) = Inl (Error ''Layers require paperId to retrieve'')
   \<and> AnnotationResource_url None
       = Inl (Error ''Layers require paperId and layerId to retrieve'')
   \<and> AnnotationResource_listUrl None
       = Inl (Error ''Layers require paperId and layerId to retrieve'')
   \<and> AnnotationResource_listUrl (Some [])
       = Inl (Error ''Layers require paperId and layerId to retrieve'')
   \<and> (property ps ''paperId'' = Some P \<and> property ps ''id'' = Some I \<longrightarrow>
        LayerResource_url (Some ps)
          = Inr (''http://localhost:8000/papers/'' @ P @ ''/layers/'' @ I))
   \<and> (property ps ''paperId'' = Some P \<longrightarrow>
        LayerResource_listUrl (Some ps)
          = Inr (''http://localhost:8000/papers/'' @ P @ ''/layers/?''
                   @ URLSearchParams_toString
                       (URLSearchParams_sort (rest_without [''paperId''] ps))))
   \<and> (property ps ''paperId'' = Some P \<and> property ps ''layerId'' = Some L
        \<and> property ps ''id'' = Some I \<longrightarrow>
        AnnotationResource_url (Some ps)
          = Inr (''http://localhost:8000/papers/'' @ P @ ''/layers/'' @ L @ ''/bbx/'' @ I))
   \<and> (property ps ''paperId'' = Some P \<and> property ps ''layerId'' = Some L \<longrightarrow>
        AnnotationResource_listUrl (Some ps)
          = Inr (''http://localhost:8000/papers/'' @ P @ ''/layers/'' @ L @ ''/bbx/?''
                   @ URLSearchParams_toString
                       (URLSearchParams_sort (rest_without [''paperId'', ''layerId''] ps))))"
proof -
  have ne: "property ps ''paperId'' = Some P \<Longrightarrow> length ps \<noteq> 0"
    by (cases ps) (simp_all add: property_def)
  show ?thesis
    using ne
    by (simp add: LayerResource_url_def LayerResource_listUrl_def AnnotationResource_url_def
        AnnotationResource_listUrl_def LayerResource_static_pk_def
        AnnotationResource_static_pk_def template_def URLSearchParams_def)
qed

theorem url_builders_guard_witness:
  "property [(''paperId'', ''P1''), (''layerId'', ''L1''), (''id'', ''A1'')] ''paperId'' = Some ''P1''
   \<and> property [(''paperId'', ''P1''), (''layerId'', ''L1''), (''id'', ''A1'')] ''layerId'' = Some ''L1''
   \<and> property [(''paperId'', ''P1''), (''layerId'', ''L1''), (''id'', ''A1'')] ''id'' = Some ''A1''
   \<and> LayerResource_url (Some [(''paperId'', ''P1''), (''layerId'', ''L1''), (''id'', ''A1'')])
       = Inr ''http://localhost:8000/papers/P1/layers/A1''
   \<and> LayerResource_listUrl (Some [(''paperId'', ''P1''), (''layerId'', ''L1''), (''id'', ''A1'')])
       = Inr ''http://localhost:8000/papers/P1/layers/?id=A1&layerId=L1''
   \<and> AnnotationResource_url
        (Some [(''paperId'', ''P1''), (''layerId'', ''L1''), (''id'', ''A1'')])
       = Inr ''http://localhost:8000/papers/P1/layers/L1/bbx/A1''
   \<and> AnnotationResource_listUrl
        (Some [(''paperId'', ''P1''), (''layerId'', ''L1''), (''id'', ''A1'')])
       = Inr ''http://localhost:8000/papers/P1/layers/L1/bbx/?id=A1''"
proof -
  let ?ps = "[(''paperId'', ''P1''), (''layerId'', ''L1''), (''id'', ''A1'')]"
  have q: "URLSearchParams_toString (URLSearchParams_sort (rest_without [''paperId'', ''layerId''] ?ps))
      = ''id=A1''"
    "URLSearchParams_toString (URLSearchParams_sort (rest_without [''paperId''] ?ps))
      = ''id=A1&layerId=L1''"
    by code_simp+
  have p: "property ?ps ''paperId'' = Some ''P1''" "property ?ps ''layerId'' = Some ''L1''"
    "property ?ps ''id'' = Some ''A1''"
    by (simp_all add: property_def)
  show ?thesis
    using url_builders_guard [of ?ps "''P1''" "''A1''" "''L1''"] p q
    by simp
qed

subsection \<open>The order of the query parameters\<close>

lemma pairs_from_keys:
  assumes "distinct (map fst xs)"
  shows "map (\<lambda>k. (k, the (map_of xs k))) (map fst xs) = xs"
proof -
  have "\<And>x. x \<in> set xs \<Longrightarrow> (fst x, the (map_of xs (fst x))) = x"
    using assms by (metis map_of_eq_Some_iff option.sel prod.collapse)
  then show ?thesis by (simp add: map_idI)
qed

lemma sorted_pairs_unique:
  assumes "sorted (map fst a)" "distinct (map fst a)" "sorted (map fst b)" "distinct (map fst b)" "set a = set b"
  shows "a = (b :: ('k::linorder \<times> 'v) list)"
proof -
  have k: "map fst a = map fst b"
    using assms by (intro sorted_distinct_set_unique) (auto simp: image_iff)
  have m: "map_of a = map_of b" using assms map_of_inject_set by blast
  have "a = map (\<lambda>k. (k, the (map_of a k))) (map fst a)"
    using assms(2) by (simp only: pairs_from_keys)
  also have "\<dots> = map (\<lambda>k. (k, the (map_of b k))) (map fst b)"
    by (simp only: k m)
  also have "\<dots> = b" using assms(4) by (simp only: pairs_from_keys)
  finally show ?thesis .
qed

lemma sort_params_eq:
  assumes "distinct (map fst p)" "distinct (map fst q)" "set p = set q"
  shows "URLSearchParams_sort p = URLSearchParams_sort q"
  unfolding URLSearchParams_sort_def
proof (rule sorted_pairs_unique)
  show "sorted (map fst (sort_key fst p))" "sorted (map fst (sort_key fst q))" by simp_all
  show "distinct (map fst (sort_key fst p))" using assms(1)
    by (metis distinct_map distinct_sort set_sort)
  show "distinct (map fst (sort_key fst q))" using assms(2)
    by (metis distinct_map distinct_sort set_sort)
  show "set (sort_key fst p) = set (sort_key fst q)" using assms(3) by simp
qed

lemma rest_without_distinct: "distinct (map fst p) \<Longrightarrow> distinct (map fst (rest_without ks p))"
  by (simp add: rest_without_def distinct_map_filter)

lemma rest_without_set: "set p = set q \<Longrightarrow> set (rest_without ks p) = set (rest_without ks q)"
  by (simp add: rest_without_def)

lemma property_eq:
  "distinct (map fst p) \<Longrightarrow> distinct (map fst q) \<Longrightarrow> set p = set q \<Longrightarrow> property p k = property q k"
  using map_of_inject_set [of p q] by (simp add: property_def)

lemma listUrl_order:
  assumes "distinct (map fst p)" "distinct (map fst q)" "set p = set q"
  shows "LayerResource_listUrl (Some p) = LayerResource_listUrl (Some q)"
proof -
  have l: "(length p \<noteq> 0) = (length q \<noteq> 0)" using assms(3) by (cases p; cases q) auto
  have s: "URLSearchParams_sort (URLSearchParams (rest_without [''paperId''] p)) =
        URLSearchParams_sort (URLSearchParams (rest_without [''paperId''] q))"
    unfolding URLSearchParams_def
    using assms by (intro sort_params_eq rest_without_distinct rest_without_set)
  show ?thesis unfolding LayerResource_listUrl_def
    by (simp only: option.case l s property_eq [OF assms] Let_def)
qed

lemma annotation_listUrl_order:
  assumes "distinct (map fst p)" "distinct (map fst q)" "set p = set q"
  shows "AnnotationResource_listUrl (Some p) = AnnotationResource_listUrl (Some q)"
proof -
  have l: "(length p \<noteq> 0) = (length q \<noteq> 0)" using assms(3) by (cases p; cases q) auto
  have s: "URLSearchParams_sort (URLSearchParams (rest_without [''paperId'', ''layerId''] p)) =
        URLSearchParams_sort (URLSearchParams (rest_without [''paperId'', ''layerId''] q))"
    unfolding URLSearchParams_def
    using assms by (intro sort_params_eq rest_without_distinct rest_without_set)
  show ?thesis unfolding AnnotationResource_listUrl_def
    by (simp only: option.case l s property_eq [OF assms] Let_def)
qed

lemma sorted_query: "sorted (map fst (URLSearchParams_sort ps))"
  by (simp add: URLSearchParams_sort_def)

lemma set_query: "set (URLSearchParams_sort (rest_without ks ps)) = {(k, v) \<in> set ps. k \<notin> set ks}"
  by (auto simp: URLSearchParams_sort_def rest_without_def)

text \<open>
  C4. Two parameter objects with the same key/value pairs (so with the same ancestor
  ids), whatever the order of their properties, give the same string from
  \<^verbatim>\<open>LayerResource.listUrl\<close> and the same string from \<^verbatim>\<open>AnnotationResource.listUrl\<close>.
  When the object is not empty that string ends with the serialisation of the pairs
  other than the ancestor ids, sorted by name.
\<close>

theorem listUrl_insertion_order:
  assumes "distinct (map fst p)" and "distinct (map fst q)" and "set p = set q"
  shows "LayerResource_listUrl (Some p) = LayerResource_listUrl (Some q)
    \<and> AnnotationResource_listUrl (Some p) = AnnotationResource_listUrl (Some q)
    \<and> (p \<noteq> [] \<longrightarrow>
        (\<exists>ps. sorted (map fst ps) \<and> set ps = {(k, v) \<in> set p. k \<notin> set [''paperId'']}
           \<and> LayerResource_listUrl (Some q)
               = Inr (''http://localhost:8000/papers/'' @ template (property p ''paperId'')
                        @ ''/layers/?'' @ URLSearchParams_toString ps))
        \<and> (\<exists>ps. sorted (map fst ps)
           \<and> set ps = {(k, v) \<in> set p. k \<notin> set [''paperId'', ''layerId'']}
           \<and> AnnotationResource_listUrl (Some q)
               = Inr (''http://localhost:8000/papers/'' @ template (property p ''paperId'')
                        @ ''/layers/'' @ template (property p ''layerId'')
                        @ ''/bbx/?'' @ URLSearchParams_toString ps)))"
proof -
  have L: "LayerResource_listUrl (Some q) = LayerResource_listUrl (Some p)"
    and A: "AnnotationResource_listUrl (Some q) = AnnotationResource_listUrl (Some p)"
    by (rule listUrl_order [OF assms, symmetric], rule annotation_listUrl_order [OF assms, symmetric])
  have eL: "\<exists>ps. sorted (map fst ps) \<and> set ps = {(k, v) \<in> set p. k \<notin> set [''paperId'']}
           \<and> LayerResource_listUrl (Some q)
               = Inr (''http://localhost:8000/papers/'' @ template (property p ''paperId'')
                        @ ''/layers/?'' @ URLSearchParams_toString ps)"
    if ne: "p \<noteq> []"
  proof (intro exI conjI)
    show "sorted (map fst (URLSearchParams_sort (rest_without [''paperId''] p)))"
      by (rule sorted_query)
    show "set (URLSearchParams_sort (rest_without [''paperId''] p))
        = {(k, v) \<in> set p. k \<notin> set [''paperId'']}"
      by (rule set_query)
    show "LayerResource_listUrl (Some q)
        = Inr (''http://localhost:8000/papers/'' @ template (property p ''paperId'')
                 @ ''/layers/?''
                 @ URLSearchParams_toString (URLSearchParams_sort (rest_without [''paperId''] p)))"
      unfolding L using ne by (simp add: LayerResource_listUrl_def URLSearchParams_def)
  qed
  have eA: "\<exists>ps. sorted (map fst ps)
           \<and> set ps = {(k, v) \<in> set p. k \<notin> set [''paperId'', ''layerId'']}
           \<and> AnnotationResource_listUrl (Some q)
               = Inr (''http://localhost:8000/papers/'' @ template (property p ''paperId'')
                        @ ''/layers/'' @ template (property p ''layerId'')
                        @ ''/bbx/?'' @ URLSearchParams_toString ps)"
    if ne: "p \<noteq> []"
  proof (intro exI conjI)
    show "sorted (map fst (URLSearchParams_sort (rest_without [''paperId'', ''layerId''] p)))"
      by (rule sorted_query)
    show "set (URLSearchParams_sort (rest_without [''paperId'', ''layerId''] p))
        = {(k, v) \<in> set p. k \<notin> set [''paperId'', ''layerId'']}"
      by (rule set_query)
    show "AnnotationResource_listUrl (Some q)
        = Inr (''http://localhost:8000/papers/'' @ template (property p ''paperId'')
                 @ ''/layers/'' @ template (property p ''layerId'') @ ''/bbx/?''
                 @ URLSearchParams_toString
                     (URLSearchParams_sort (rest_without [''paperId'', ''layerId''] p)))"
      unfolding A using ne by (simp add: AnnotationResource_listUrl_def URLSearchParams_def)
  qed
  from L A eL eA show ?thesis by (intro conjI impI) simp_all
qed

lemma listUrl_example:
  "LayerResource_listUrl (Some [(''paperId'', ''P1''), (''name'', ''a b''), (''kind'', ''x'')])
     = Inr ''http://localhost:8000/papers/P1/layers/?kind=x&name=a+b''"
  by code_simp

theorem listUrl_insertion_order_witness:
  "distinct (map fst [(''paperId'', ''P1''), (''name'', ''a b''), (''kind'', ''x'')])
   \<and> distinct (map fst [(''kind'', ''x''), (''paperId'', ''P1''), (''name'', ''a b'')])
   \<and> set [(''paperId'', ''P1''), (''name'', ''a b''), (''kind'', ''x'')]
       = set [(''kind'', ''x''), (''paperId'', ''P1''), (''name'', ''a b'')]
   \<and> [(''paperId'', ''P1''), (''name'', ''a b''), (''kind'', ''x'')] \<noteq> []
   \<and> LayerResource_listUrl (Some [(''kind'', ''x''), (''paperId'', ''P1''), (''name'', ''a b'')])
       = Inr ''http://localhost:8000/papers/P1/layers/?kind=x&name=a+b''"
proof -
  let ?p = "[(''paperId'', ''P1''), (''name'', ''a b''), (''kind'', ''x'')]"
  let ?q = "[(''kind'', ''x''), (''paperId'', ''P1''), (''name'', ''a b'')]"
  have h: "distinct (map fst ?p)" "distinct (map fst ?q)" "set ?p = set ?q"
    by auto
  show ?thesis
    using h listUrl_insertion_order [OF h] listUrl_example by simp
qed

subsection \<open>The optimistic update\<close>

text \<open>
  C10. The optimistic update of the shape that \<^verbatim>\<open>updateShape\<close> returns, whatever the
  shape and the fetch options of the library are, gives for the parameters and the
  body of a request the body merged over \<^verbatim>\<open>{ id: params.id }\<close>: every field of the
  body with the body's value, the field \<^verbatim>\<open>id\<close> with the \<^verbatim>\<open>id\<close> of the parameters
  (\<^verbatim>\<open>undefined\<close> when they have none) unless the body has an \<^verbatim>\<open>id\<close> of its own, and
  no other field. It is a function of the parameters and the body alone, so no field
  of the record in the cache enters it. For the parameters of the annotation
  \<^verbatim>\<open>A1\<close> and the body \<^verbatim>\<open>{ label: "title" }\<close> it is
  \<^verbatim>\<open>{ id: "A1", label: "title" }\<close>.
\<close>

theorem optimisticUpdate_merge:
  "optimisticUpdate params body k
     = (case body k of
          Some v \<Rightarrow> Some v
        | None \<Rightarrow>
            if k = ''id''
            then Some (case params ''id'' of None \<Rightarrow> Undefined | Some i \<Rightarrow> i)
            else None)
   \<and> dom (optimisticUpdate params body) = insert ''id'' (dom body)
   \<and> options_optimisticUpdate (AnnotationResource_updateShape super_shape fetch_options) params body
       = optimisticUpdate params body
   \<and> optimisticUpdate
         [''paperId'' \<mapsto> Str ''P1'', ''layerId'' \<mapsto> Str ''L1'', ''id'' \<mapsto> Str ''A1'']
         [''label'' \<mapsto> Str ''title'']
       = [''id'' \<mapsto> Str ''A1'', ''label'' \<mapsto> Str ''title'']
   \<and> optimisticUpdate [''id'' \<mapsto> Str ''A1''] [''id'' \<mapsto> Str ''A2'', ''label'' \<mapsto> Str ''title'']
       = [''id'' \<mapsto> Str ''A2'', ''label'' \<mapsto> Str ''title'']
   \<and> optimisticUpdate [''paperId'' \<mapsto> Str ''P1''] [''label'' \<mapsto> Str ''title'']
       = [''id'' \<mapsto> Undefined, ''label'' \<mapsto> Str ''title'']"
proof (intro conjI)
  show "optimisticUpdate params body k
     = (case body k of
          Some v \<Rightarrow> Some v
        | None \<Rightarrow>
            if k = ''id''
            then Some (case params ''id'' of None \<Rightarrow> Undefined | Some i \<Rightarrow> i)
            else None)"
    by (simp add: optimisticUpdate_def member_def map_add_def split: option.splits)
  show "dom (optimisticUpdate params body) = insert ''id'' (dom body)"
    by (auto simp: optimisticUpdate_def map_add_def split: option.splits)
  show "options_optimisticUpdate (AnnotationResource_updateShape super_shape fetch_options)
      params body = optimisticUpdate params body"
    by (simp add: AnnotationResource_updateShape_def)
  show "optimisticUpdate
         [''paperId'' \<mapsto> Str ''P1'', ''layerId'' \<mapsto> Str ''L1'', ''id'' \<mapsto> Str ''A1'']
         [''label'' \<mapsto> Str ''title'']
       = [''id'' \<mapsto> Str ''A1'', ''label'' \<mapsto> Str ''title'']"
    by (simp add: optimisticUpdate_def member_def map_add_def fun_eq_iff)
  show "optimisticUpdate [''id'' \<mapsto> Str ''A1''] [''id'' \<mapsto> Str ''A2'', ''label'' \<mapsto> Str ''title'']
       = [''id'' \<mapsto> Str ''A2'', ''label'' \<mapsto> Str ''title'']"
    by (simp add: optimisticUpdate_def member_def map_add_def fun_eq_iff)
  show "optimisticUpdate [''paperId'' \<mapsto> Str ''P1''] [''label'' \<mapsto> Str ''title'']
       = [''id'' \<mapsto> Undefined, ''label'' \<mapsto> Str ''title'']"
    by (simp add: optimisticUpdate_def member_def map_add_def fun_eq_iff)
qed

section \<open>Properties of the shortcuts\<close>

subsection \<open>One step of the reduction\<close>

lemma set_spread_with:
  "\<not> has_property c sc \<Longrightarrow> set (spread_with sc c l) = insert (c, l) (set sc)"
  by (induction sc c l rule: spread_with.induct) (auto simp: has_property_def)

lemma keys_spread_with:
  "\<not> has_property c sc \<Longrightarrow> distinct (map fst sc) \<Longrightarrow> distinct (map fst (spread_with sc c l))"
proof (induction sc c l rule: spread_with.induct)
  case (1 c l)
  then show ?case by simp
next
  case (2 k v sc c l)
  then have n: "\<not> has_property c sc" "k \<noteq> c" by (auto simp: has_property_def)
  have "fst ` set (spread_with sc c l) = insert c (fst ` set sc)"
    using set_spread_with [OF n(1)] by simp
  with 2 n show ?case by (auto simp: has_property_def)
qed

lemma for_of_label_None:
  "for_of_label cs sc l = None \<longleftrightarrow> (\<forall>x\<in>set cs. has_property x sc)"
  by (induction cs) auto

lemma for_of_label_first:
  "\<forall>x\<in>set u. has_property x sc \<Longrightarrow> \<not> has_property c sc \<Longrightarrow>
     for_of_label (u @ c # v) sc l = Some (spread_with sc c l)"
  by (induction u) auto

lemma for_of_label_Some:
  "for_of_label cs sc l = Some sc' \<Longrightarrow>
     \<exists>c\<in>set cs. \<not> has_property c sc \<and> sc' = spread_with sc c l"
  by (induction cs) (auto split: if_splits)

lemma reduce_labels_snoc:
  "reduce_labels (xs @ [x]) = reducer (reduce_labels xs) x"
  by (simp add: reduce_labels_def)

lemma reduce_labels_append:
  "reduce_labels (xs @ ys) = foldl reducer (reduce_labels xs) ys"
  by (simp add: reduce_labels_def)

lemma reducer_None:
  "\<forall>x\<in>set l. has_property x (fst st) \<Longrightarrow>
     reducer st l = (fst st, snd st @ [[''Warning: unable to deduce shortcut for '', l]])"
proof -
  assume "\<forall>x\<in>set l. has_property x (fst st)"
  then have "for_of_label l (fst st) l = None" by (simp add: for_of_label_None)
  then show ?thesis by (simp add: reducer_def)
qed

lemma reducer_Some:
  "\<forall>x\<in>set u. has_property x (fst st) \<Longrightarrow> \<not> has_property c (fst st) \<Longrightarrow>
     reducer st (u @ c # v) = (spread_with (fst st) c (u @ c # v), snd st)"
  by (simp add: reducer_def for_of_label_first)

lemma shortcuts_snoc_cases:
  "(shortcuts (xs @ [x]) = shortcuts xs \<and> (\<forall>c\<in>set x. has_property c (shortcuts xs))) \<or>
   (\<exists>c\<in>set x. \<not> has_property c (shortcuts xs) \<and> shortcuts (xs @ [x]) = spread_with (shortcuts xs) c x)"
proof (cases "for_of_label x (shortcuts xs) x")
  case None
  then have "\<forall>c\<in>set x. has_property c (shortcuts xs)" by (simp add: for_of_label_None)
  moreover from None have "shortcuts (xs @ [x]) = shortcuts xs"
    by (simp add: shortcuts_def reduce_labels_snoc reducer_def)
  ultimately show ?thesis by simp
next
  case (Some sc')
  then obtain c where "c \<in> set x" "\<not> has_property c (shortcuts xs)" "sc' = spread_with (shortcuts xs) c x"
    using for_of_label_Some by blast
  moreover from Some have "shortcuts (xs @ [x]) = sc'"
    by (simp add: shortcuts_def reduce_labels_snoc reducer_def)
  ultimately show ?thesis by blast
qed

lemma shortcuts_set_snoc:
  "set (shortcuts (xs @ [x])) = set (shortcuts xs) \<or>
   (\<exists>c\<in>set x. \<not> has_property c (shortcuts xs) \<and> set (shortcuts (xs @ [x])) = insert (c, x) (set (shortcuts xs)))"
  using shortcuts_snoc_cases [of xs x] by (auto simp: set_spread_with)

lemma shortcuts_keys_distinct: "distinct (map fst (shortcuts labels))"
proof (induction labels rule: rev_induct)
  case Nil
  then show ?case by (simp add: shortcuts_def reduce_labels_def)
next
  case (snoc x xs)
  then show ?case using shortcuts_snoc_cases [of xs x] by (auto simp: keys_spread_with)
qed

lemma shortcuts_sound:
  "(c, l) \<in> set (shortcuts labels) \<Longrightarrow> c \<in> set l \<and> l \<in> set labels"
proof (induction labels rule: rev_induct)
  case Nil
  then show ?case by (simp add: shortcuts_def reduce_labels_def)
next
  case (snoc x xs)
  then show ?case using shortcuts_set_snoc [of xs x] by auto
qed

lemma shortcuts_values_distinct:
  "distinct labels \<Longrightarrow> distinct (map snd (shortcuts labels))"
proof (induction labels rule: rev_induct)
  case Nil
  then show ?case by (simp add: shortcuts_def reduce_labels_def)
next
  case (snoc x xs)
  then have d: "distinct (map snd (shortcuts xs))" and nx: "x \<notin> set xs" by simp_all
  have fresh: "x \<notin> snd ` set (shortcuts xs)"
    using nx shortcuts_sound [of _ x xs] by auto
  have ins: "\<not> has_property c sc \<Longrightarrow> x \<notin> snd ` set sc \<Longrightarrow> distinct (map snd sc) \<Longrightarrow>
      distinct (map snd (spread_with sc c x))" for c sc
  proof (induction sc c x rule: spread_with.induct)
    case (1 c l)
    then show ?case by simp
  next
    case (2 k v sc c l)
    then have n: "\<not> has_property c sc" "k \<noteq> c" by (auto simp: has_property_def)
    have "snd ` set (spread_with sc c l) = insert l (snd ` set sc)"
      using set_spread_with [OF n(1)] by simp
    with 2 n show ?case by (auto simp: has_property_def)
  qed
  show ?case using shortcuts_snoc_cases [of xs x] d fresh by (auto simp: ins)
qed

lemma shortcuts_mono: "set (shortcuts xs) \<subseteq> set (shortcuts (xs @ ys))"
proof (induction ys rule: rev_induct)
  case Nil
  then show ?case by simp
next
  case (snoc y ys)
  then show ?case using shortcuts_set_snoc [of "xs @ ys" y] by auto
qed

lemma lookup_iff: "lookup (shortcuts labels) c = Some l \<longleftrightarrow> (c, l) \<in> set (shortcuts labels)"
  by (simp add: lookup_def shortcuts_keys_distinct)



lemma has_property_iff:
  "has_property x (shortcuts pre) \<longleftrightarrow> (\<exists>l\<in>set pre. lookup (shortcuts pre) x = Some l)"
proof
  assume "has_property x (shortcuts pre)"
  then obtain l where "(x, l) \<in> set (shortcuts pre)" by (auto simp: has_property_def)
  then show "\<exists>l\<in>set pre. lookup (shortcuts pre) x = Some l"
    using shortcuts_sound [of x l pre] by (auto simp: lookup_iff)
next
  assume "\<exists>l\<in>set pre. lookup (shortcuts pre) x = Some l"
  then show "has_property x (shortcuts pre)"
    by (auto simp: lookup_iff has_property_def image_iff intro: bexI [of _ "(x, _)"])
qed

lemma shortcuts_cat_car_dog:
  "shortcuts [''cat'', ''car'', ''dog'']
     = [(CHR ''c'', ''cat''), (CHR ''a'', ''car''), (CHR ''d'', ''dog'')]"
  by code_simp

subsection \<open>The character a label takes\<close>

text \<open>
  C2. Let a label stand in the list after the labels \<open>pre\<close>, and let \<open>c\<close> be its
  first character, reading from the left, that is not a key of the shortcuts of
  \<open>pre\<close> (the keys being the characters that the labels of \<open>pre\<close> have taken). Then
  the reducer gives \<open>c\<close> to the label and writes no warning, and in the shortcuts of
  the whole list \<open>c\<close> still maps to this label. For \<^verbatim>\<open>["cat","car","dog"]\<close> the
  object is exactly \<^verbatim>\<open>{c: "cat", a: "car", d: "dog"}\<close>.
\<close>

theorem shortcuts_first_unclaimed:
  assumes "\<forall>x\<in>set u. has_property x (shortcuts pre)" and "\<not> has_property c (shortcuts pre)"
  shows "shortcuts (pre @ [u @ c # v]) = spread_with (shortcuts pre) c (u @ c # v)
    \<and> set (shortcuts (pre @ [u @ c # v])) = insert (c, u @ c # v) (set (shortcuts pre))
    \<and> snd (reduce_labels (pre @ [u @ c # v])) = snd (reduce_labels pre)
    \<and> lookup (shortcuts (pre @ (u @ c # v) # post)) c = Some (u @ c # v)
    \<and> (\<forall>x. has_property x (shortcuts pre)
            \<longleftrightarrow> (\<exists>l\<in>set pre. lookup (shortcuts pre) x = Some l))
    \<and> shortcuts [''cat'', ''car'', ''dog'']
        = [(CHR ''c'', ''cat''), (CHR ''a'', ''car''), (CHR ''d'', ''dog'')]"
proof -
  let ?l = "u @ c # v"
  have step: "reduce_labels (pre @ [?l])
      = (spread_with (shortcuts pre) c ?l, snd (reduce_labels pre))"
    using assms by (simp add: reduce_labels_snoc shortcuts_def reducer_Some)
  then have s: "shortcuts (pre @ [?l]) = spread_with (shortcuts pre) c ?l"
    by (simp add: shortcuts_def)
  then have m: "set (shortcuts (pre @ [?l])) = insert (c, ?l) (set (shortcuts pre))"
    using assms(2) by (simp add: set_spread_with)
  have "(c, ?l) \<in> set (shortcuts ((pre @ [?l]) @ post))"
    using m shortcuts_mono [of "pre @ [?l]" post] by auto
  then have f: "lookup (shortcuts (pre @ ?l # post)) c = Some ?l"
    by (simp add: lookup_iff)
  show ?thesis
    using step s m f has_property_iff shortcuts_cat_car_dog by simp
qed

theorem shortcuts_first_unclaimed_witness:
  "has_property CHR ''c'' (shortcuts [''cat''])
   \<and> \<not> has_property CHR ''a'' (shortcuts [''cat''])
   \<and> shortcuts ([''cat''] @ [''c'' @ CHR ''a'' # ''r''])
       = spread_with (shortcuts [''cat'']) CHR ''a'' ''car''
   \<and> lookup (shortcuts [''cat'', ''car'', ''dog'']) CHR ''a'' = Some ''car''"
proof -
  have s: "shortcuts [''cat''] = [(CHR ''c'', ''cat'')]" by code_simp
  have h: "\<forall>x\<in>set ''c''. has_property x (shortcuts [''cat''])"
    "\<not> has_property CHR ''a'' (shortcuts [''cat''])"
    by (simp_all add: s has_property_def)
  show ?thesis
    using h shortcuts_first_unclaimed [OF h, of "''r''" "[''dog'']"]
    by (simp add: lookup_def)
qed

subsection \<open>A label with no free character\<close>

text \<open>
  C7. When every character of a label is already a key of the shortcuts of the labels
  before it, the reducer returns the object it was given, so the label adds no
  shortcut, it writes the warning with the label to the console, and the reduction
  goes on with the labels that follow from that state.
\<close>

theorem shortcuts_no_unclaimed:
  assumes "\<forall>x\<in>set l. has_property x (shortcuts pre)"
  shows "shortcuts (pre @ [l]) = shortcuts pre
    \<and> snd (reduce_labels (pre @ [l]))
        = snd (reduce_labels pre) @ [[''Warning: unable to deduce shortcut for '', l]]
    \<and> reduce_labels (pre @ l # post)
        = foldl reducer
            (shortcuts pre,
             snd (reduce_labels pre) @ [[''Warning: unable to deduce shortcut for '', l]])
            post"
proof -
  have step: "reduce_labels (pre @ [l])
      = (shortcuts pre,
         snd (reduce_labels pre) @ [[''Warning: unable to deduce shortcut for '', l]])"
    using assms by (simp add: reduce_labels_snoc shortcuts_def reducer_None)
  have "reduce_labels (pre @ l # post) = foldl reducer (reduce_labels (pre @ [l])) post"
    using reduce_labels_append [of "pre @ [l]" post] by simp
  with step show ?thesis by (simp add: shortcuts_def)
qed

theorem shortcuts_no_unclaimed_witness:
  "has_property CHR ''a'' (shortcuts [''a''])
   \<and> shortcuts ([''a''] @ [''aa'']) = shortcuts [''a'']
   \<and> reduce_labels ([''a''] @ ''aa'' # [''ab''])
       = ([(CHR ''a'', ''a''), (CHR ''b'', ''ab'')],
          [[''Warning: unable to deduce shortcut for '', ''aa'']])"
proof -
  have s: "shortcuts [''a''] = [(CHR ''a'', ''a'')]" by code_simp
  have h: "\<forall>x\<in>set ''aa''. has_property x (shortcuts [''a''])"
    by (simp add: s has_property_def)
  have r: "reduce_labels ([''a''] @ ''aa'' # [''ab''])
       = ([(CHR ''a'', ''a''), (CHR ''b'', ''ab'')],
          [[''Warning: unable to deduce shortcut for '', ''aa'']])"
    by code_simp
  show ?thesis
    using h shortcuts_no_unclaimed [OF h, of "[''ab'']"] r by simp
qed

subsection \<open>The object as a mapping\<close>

lemma shortcuts_ab_ab:
  "shortcuts [''ab'', ''ab''] = [(CHR ''a'', ''ab''), (CHR ''b'', ''ab'')]"
  by code_simp

text \<open>
  C9 as it is stated fails for a list that holds a label twice: in the shortcuts of
  \<^verbatim>\<open>["ab","ab"]\<close> the two characters \<^verbatim>\<open>a\<close> and \<^verbatim>\<open>b\<close> both map to the label
  \<^verbatim>\<open>"ab"\<close>.
\<close>

theorem shortcuts_injective_counterexample:
  "lookup (shortcuts [''ab'', ''ab'']) CHR ''a'' = Some ''ab''
   \<and> lookup (shortcuts [''ab'', ''ab'']) CHR ''b'' = Some ''ab''
   \<and> CHR ''a'' \<noteq> CHR ''b''"
  by (simp add: shortcuts_ab_ab lookup_def)

text \<open>
  C9, amended. In the shortcuts of any list of labels each character is a key at most
  once, and a character maps only to a label of the list in which it occurs. When no
  label occurs twice in the list, no label is the value of two characters.
\<close>

theorem shortcuts_injective:
  "distinct (map fst (shortcuts labels))
   \<and> (\<forall>c l. lookup (shortcuts labels) c = Some l \<longrightarrow> c \<in> set l \<and> l \<in> set labels)
   \<and> (distinct labels \<longrightarrow>
        (\<forall>c c' l. lookup (shortcuts labels) c = Some l \<and> lookup (shortcuts labels) c' = Some l
           \<longrightarrow> c = c'))"
proof (intro conjI allI impI)
  show "distinct (map fst (shortcuts labels))" by (rule shortcuts_keys_distinct)
next
  fix c l assume "lookup (shortcuts labels) c = Some l"
  then have "(c, l) \<in> set (shortcuts labels)" by (simp add: lookup_iff)
  then show "c \<in> set l" "l \<in> set labels" using shortcuts_sound by blast+
next
  fix c c' l
  assume d: "distinct labels"
    and "lookup (shortcuts labels) c = Some l \<and> lookup (shortcuts labels) c' = Some l"
  then have in1: "(c, l) \<in> set (shortcuts labels)" and in2: "(c', l) \<in> set (shortcuts labels)"
    by (simp_all add: lookup_iff)
  have "inj_on snd (set (shortcuts labels))"
    using shortcuts_values_distinct [OF d] by (simp add: distinct_map)
  then have "(c, l) = (c', l)" using in1 in2 by (intro inj_onD [of snd]) simp_all
  then show "c = c'" by simp
qed

theorem shortcuts_injective_witness:
  "distinct [''cat'', ''car'', ''dog'']
   \<and> lookup (shortcuts [''cat'', ''car'', ''dog'']) CHR ''a'' = Some ''car''
   \<and> CHR ''a'' \<in> set ''car'' \<and> ''car'' \<in> set [''cat'', ''car'', ''dog'']
   \<and> distinct (map fst (shortcuts [''cat'', ''car'', ''dog'']))"
proof -
  have l: "lookup (shortcuts [''cat'', ''car'', ''dog'']) CHR ''a'' = Some ''car''"
    by (simp add: shortcuts_cat_car_dog lookup_def)
  show ?thesis
    using l shortcuts_injective [of "[''cat'', ''car'', ''dog'']"] by simp
qed

subsection \<open>The text of the buttons\<close>

lemma highlight_loop_None: "highlight_loop None cs = map Plain cs"
  by (induction cs) auto

lemma highlight_loop_Some:
  "c \<notin> set u \<Longrightarrow> highlight_loop (Some c) (u @ c # v) = map Plain u @ Bold c # map Plain v"
  by (induction u) (auto simp: highlight_loop_None)

lemma findKey_None: "findKey sc P = None \<longleftrightarrow> (\<forall>(k, v)\<in>set sc. \<not> P v)"
  by (auto simp: findKey_def find_None_iff)

lemma findKey_Some: "findKey sc P = Some c \<Longrightarrow> \<exists>v. (c, v) \<in> set sc \<and> P v"
  by (induction sc) (auto simp: findKey_def split: if_splits)

lemma findKey_unique:
  assumes "distinct labels" "(c, l) \<in> set (shortcuts labels)"
  shows "findKey (shortcuts labels) (\<lambda>v. v = l) = Some c"
proof -
  have "findKey (shortcuts labels) (\<lambda>v. v = l) \<noteq> None"
    using assms(2) by (auto simp: findKey_None)
  then obtain c' where c': "findKey (shortcuts labels) (\<lambda>v. v = l) = Some c'" by blast
  then have "(c', l) \<in> set (shortcuts labels)" using findKey_Some by fastforce
  moreover have "inj_on snd (set (shortcuts labels))"
    using shortcuts_values_distinct [OF assms(1)] by (simp add: distinct_map)
  ultimately have "(c', l) = (c, l)" using assms(2) by (intro inj_onD [of snd]) simp_all
  then have "c' = c" by simp
  with c' show ?thesis by simp
qed

lemma first_occurrence: "c \<in> set l \<Longrightarrow> \<exists>u v. l = u @ c # v \<and> c \<notin> set u"
  by (meson split_list_first)

lemma highlight_ab_ab:
  "highlightShortcut (shortcuts [''ab'', ''ab'']) ''ab'' = [Bold CHR ''a'', Plain CHR ''b'']"
  by code_simp

lemma reduce_a_a:
  "reduce_labels [''a'', ''a'']
     = ([(CHR ''a'', ''a'')], [[''Warning: unable to deduce shortcut for '', ''a'']])"
  by code_simp

lemma buttons_a_a: "buttons [''a'', ''a''] = [[Bold CHR ''a''], [Bold CHR ''a'']]"
  by code_simp

text \<open>
  C8 as it is stated fails for a list that holds a label twice. In \<^verbatim>\<open>["ab","ab"]\<close> the
  second label takes the character \<^verbatim>\<open>b\<close>, and its button shows \<^verbatim>\<open>a\<close> in bold and
  \<^verbatim>\<open>b\<close> plain. In \<^verbatim>\<open>["a","a"]\<close> the second label takes no character (the reducer
  writes the warning), and its button shows \<^verbatim>\<open>a\<close> in bold.
\<close>

theorem highlightShortcut_counterexample:
  "lookup (shortcuts [''ab'', ''ab'']) CHR ''b'' = Some ''ab''
   \<and> highlightShortcut (shortcuts [''ab'', ''ab'']) ''ab'' = [Bold CHR ''a'', Plain CHR ''b'']
   \<and> reduce_labels [''a'', ''a'']
       = ([(CHR ''a'', ''a'')], [[''Warning: unable to deduce shortcut for '', ''a'']])
   \<and> buttons [''a'', ''a''] = [[Bold CHR ''a''], [Bold CHR ''a'']]"
  using highlight_ab_ab reduce_a_a buttons_a_a by (simp add: shortcuts_ab_ab lookup_def)

text \<open>
  C8, amended. For a list in which no label occurs twice: when a character \<open>c\<close> of
  the shortcuts maps to a label, \<^verbatim>\<open>highlightShortcut\<close> of the label is the label with
  the first occurrence of \<open>c\<close> in bold and every other character plain; when no
  character maps to a label, \<^verbatim>\<open>highlightShortcut\<close> of it is the label with every
  character plain. The button of a label shows \<^verbatim>\<open>highlightShortcut\<close> of it.
\<close>

theorem highlightShortcut_first_occurrence:
  assumes "distinct labels"
  shows "(\<forall>c. lookup (shortcuts labels) c = Some l \<longrightarrow>
            (\<exists>u v. l = u @ c # v \<and> c \<notin> set u
               \<and> highlightShortcut (shortcuts labels) l = map Plain u @ Bold c # map Plain v))
    \<and> ((\<forall>c. lookup (shortcuts labels) c \<noteq> Some l) \<longrightarrow>
          highlightShortcut (shortcuts labels) l = map Plain l)
    \<and> buttons labels = map (highlightShortcut (shortcuts labels)) labels"
proof -
  have bold: "\<exists>u v. l = u @ c # v \<and> c \<notin> set u
      \<and> highlightShortcut (shortcuts labels) l = map Plain u @ Bold c # map Plain v"
    if "lookup (shortcuts labels) c = Some l" for c
  proof -
    from that have m: "(c, l) \<in> set (shortcuts labels)" by (simp add: lookup_iff)
    then have "c \<in> set l" using shortcuts_sound by blast
    from first_occurrence [OF this] obtain u v where uv: "l = u @ c # v" "c \<notin> set u"
      by (elim exE conjE)
    have "highlightShortcut (shortcuts labels) l = highlight_loop (Some c) l"
      using findKey_unique [OF assms m] by (simp add: highlightShortcut_def)
    also have "\<dots> = highlight_loop (Some c) (u @ c # v)" by (simp only: uv(1))
    also have "\<dots> = map Plain u @ Bold c # map Plain v"
      using uv(2) by (rule highlight_loop_Some)
    finally have "highlightShortcut (shortcuts labels) l = map Plain u @ Bold c # map Plain v" .
    with uv show ?thesis by (intro exI conjI)
  qed
  have plain: "highlightShortcut (shortcuts labels) l = map Plain l"
    if none: "\<forall>c. lookup (shortcuts labels) c \<noteq> Some l"
  proof -
    have "v \<noteq> l" if "(k, v) \<in> set (shortcuts labels)" for k v
    proof
      assume "v = l"
      with that have "lookup (shortcuts labels) k = Some l" by (simp add: lookup_iff)
      with none show False by simp
    qed
    then have "\<forall>(k, v)\<in>set (shortcuts labels). \<not> v = l" by auto
    then have "findKey (shortcuts labels) (\<lambda>v. v = l) = None" by (simp only: findKey_None)
    then show ?thesis by (simp add: highlightShortcut_def highlight_loop_None)
  qed
  have "buttons labels = map (highlightShortcut (shortcuts labels)) labels"
    by (simp add: buttons_def)
  with bold plain show ?thesis by (intro conjI allI impI)
qed

lemma highlight_car:
  "highlightShortcut (shortcuts [''cat'', ''car'', ''dog'']) ''car''
     = [Plain CHR ''c'', Bold CHR ''a'', Plain CHR ''r'']"
  by code_simp

lemma shortcuts_a_aa: "shortcuts [''a'', ''aa''] = [(CHR ''a'', ''a'')]"
  by code_simp

theorem highlightShortcut_first_occurrence_witness:
  "distinct [''cat'', ''car'', ''dog'']
   \<and> lookup (shortcuts [''cat'', ''car'', ''dog'']) CHR ''a'' = Some ''car''
   \<and> (\<exists>u v. ''car'' = u @ CHR ''a'' # v \<and> CHR ''a'' \<notin> set u
         \<and> highlightShortcut (shortcuts [''cat'', ''car'', ''dog'']) ''car''
             = map Plain u @ Bold CHR ''a'' # map Plain v)
   \<and> highlightShortcut (shortcuts [''cat'', ''car'', ''dog'']) ''car''
       = [Plain CHR ''c'', Bold CHR ''a'', Plain CHR ''r'']
   \<and> distinct [''a'', ''aa'']
   \<and> (\<forall>c. lookup (shortcuts [''a'', ''aa'']) c \<noteq> Some ''aa'')
   \<and> highlightShortcut (shortcuts [''a'', ''aa'']) ''aa'' = map Plain ''aa''"
proof -
  have d: "distinct [''cat'', ''car'', ''dog'']" "distinct [''a'', ''aa'']" by simp_all
  have l: "lookup (shortcuts [''cat'', ''car'', ''dog'']) CHR ''a'' = Some ''car''"
    by (simp add: shortcuts_cat_car_dog lookup_def)
  have n: "\<forall>c. lookup (shortcuts [''a'', ''aa'']) c \<noteq> Some ''aa''"
    by (simp add: shortcuts_a_aa lookup_def)
  show ?thesis
    using d l n highlight_car
      highlightShortcut_first_occurrence [OF d(1), of "''car''"]
      highlightShortcut_first_occurrence [OF d(2), of "''aa''"]
    by blast
qed

section \<open>Properties of the creation of a layer\<close>

text \<open>
  C5 as it is stated fails where it says that the id of the new layer is added. The
  update function adds \<^verbatim>\<open>newAnnotation\<close>, and that is the primary key of the new
  layer. The layer of paper \<^verbatim>\<open>P1\<close> with the id \<^verbatim>\<open>L9\<close> has the primary key
  \<^verbatim>\<open>P1-L9\<close>: after \<^verbatim>\<open>+new\<close> the cached list of the paper ends with \<^verbatim>\<open>P1-L9\<close>, and
  the id \<^verbatim>\<open>L9\<close> is not in it.
\<close>

theorem create_untitled_appends_counterexample:
  "LayerResource.id' \<lparr>LayerResource.id' = ''L9'', paperId = ''P1'', kind = ''M'',
       name = ''Untitled'', training = False\<rparr> = ''L9''
   \<and> ModelHeaderCreateLayer_button_onClick ''P1'' ''M''
        (Resolved
           (LayerResource_pk \<lparr>LayerResource.id' = ''L9'', paperId = ''P1'', kind = ''M'',
              name = ''Untitled'', training = False\<rparr>)
           (LayerResource.id' \<lparr>LayerResource.id' = ''L9'', paperId = ''P1'', kind = ''M'',
              name = ''Untitled'', training = False\<rparr>))
        \<lparr>cache = [''P1'' \<mapsto> [''P1-L1'']], posted = [], displayChanges = [],
           newLayer = None, alerts = []\<rparr>
       = Inr \<lparr>cache = [''P1'' \<mapsto> [''P1-L1'', ''P1-L9'']],
               posted = [(''P1'', create_body ''kind'' ''M'' ''Untitled'' None)],
               displayChanges = [(''L9'', True)], newLayer = None, alerts = []\<rparr>
   \<and> ''L9'' \<notin> set [''P1-L1'', ''P1-L9'']"
  by (simp add: ModelHeaderCreateLayer_button_onClick_def
      ModelHeaderCreateLayer_createAnnotationLayer_def updater_def LayerResource_pk_def)

text \<open>
  C5, amended. The buttons \<^verbatim>\<open>+layer\<close> and \<^verbatim>\<open>+new\<close> send a request whose body has the
  name \<^verbatim>\<open>"Untitled"\<close> and \<^verbatim>\<open>from\<close> undefined. When the request is fulfilled, the
  update function adds the value the library passes to it as \<^verbatim>\<open>newAnnotation\<close>, the
  primary key of the new layer (for a \<^verbatim>\<open>LayerResource\<close> its \<^verbatim>\<open>paperId\<close>, \<^verbatim>\<open>"-"\<close>
  and its \<^verbatim>\<open>id\<close>), at the end of the cached list of the paper, whose order it keeps;
  when there was no cached list the result is the list of that primary key alone. The
  lists of the other papers stay as they were. \<^verbatim>\<open>ClassHeaderCreateLayer\<close> announces
  the new layer with that primary key, \<^verbatim>\<open>ModelHeaderCreateLayer\<close> asks for its display
  with the \<^verbatim>\<open>id\<close> of the result.
\<close>

theorem create_untitled_appends_pk:
  "(\<exists>st'. ClassHeaderCreateLayer_button_onClick P classId (Resolved newAnnotation rid) st = Inr st'
      \<and> (\<exists>body. posted st' = posted st @ [(P, body)]
            \<and> body ''name'' = Some (Str ''Untitled'') \<and> body ''from'' = Some Undefined)
      \<and> cache st'
          = (cache st)(P := Some ((case cache st P of None \<Rightarrow> [] | Some xs \<Rightarrow> xs)
                                     @ [newAnnotation]))
      \<and> displayChanges st' = displayChanges st @ [(newAnnotation, True)]
      \<and> newLayer st' = Some newAnnotation)
   \<and> (\<exists>st'. ModelHeaderCreateLayer_button_onClick P model_id
               (Resolved (LayerResource_pk layer) (LayerResource.id' layer)) st = Inr st'
      \<and> (\<exists>body. posted st' = posted st @ [(P, body)]
            \<and> body ''name'' = Some (Str ''Untitled'') \<and> body ''from'' = Some Undefined)
      \<and> cache st'
          = (cache st)(P := Some ((case cache st P of None \<Rightarrow> [] | Some xs \<Rightarrow> xs)
                                     @ [LayerResource.paperId layer @ ''-''
                                          @ LayerResource.id' layer]))
      \<and> displayChanges st' = displayChanges st @ [(LayerResource.id' layer, True)])
   \<and> updater newAnnotation (Some xs) = xs @ [newAnnotation]
   \<and> updater newAnnotation None = [newAnnotation]"
  by (simp add: ClassHeaderCreateLayer_button_onClick_def
      ModelHeaderCreateLayer_button_onClick_def
      ClassHeaderCreateLayer_createAnnotationLayer_def
      ModelHeaderCreateLayer_createAnnotationLayer_def
      onNewLayer_def updater_def create_body_def optional_def LayerResource_pk_def)

text \<open>
  C6. The select control is changed to the extractor \<open>X\<close>, and the request for the
  layer named \<^verbatim>\<open>"from." + X\<close> with the source \<open>X\<close> is rejected with a response whose
  body is a JSON object. Then the handler leaves the control enabled with the value
  \<^verbatim>\<open>""\<close>, and it has called \<^verbatim>\<open>alert.error\<close> once, with the \<^verbatim>\<open>message\<close> of that
  object; nothing else of the state changes but the record of the request sent.
\<close>

theorem select_onChange_failure:
  assumes "value' target \<noteq> ''''"
  shows "ClassHeaderCreateLayer_select_onChange P classId (Rejected (Http_json error)) (target, st)
      = (target\<lparr>disabled := False, value' := ''''\<rparr>,
         st\<lparr>posted := posted st
               @ [(P, create_body ''class'' classId (''from.'' @ value' target)
                        (Some (value' target)))],
            alerts := alerts st @ [member error ''message'']\<rparr>)
    \<and> ModelHeaderCreateLayer_select_onChange P model_id (Rejected (Http_json error)) (target, st)
      = (target\<lparr>disabled := False, value' := ''''\<rparr>,
         st\<lparr>posted := posted st
               @ [(P, create_body ''kind'' model_id (''from.'' @ value' target)
                        (Some (value' target)))],
            alerts := alerts st @ [member error ''message'']\<rparr>)"
  using assms
  by (simp add: ClassHeaderCreateLayer_select_onChange_def
      ModelHeaderCreateLayer_select_onChange_def select_onChange_def
      ClassHeaderCreateLayer_createAnnotationLayer_def
      ModelHeaderCreateLayer_createAnnotationLayer_def)

theorem select_onChange_failure_witness:
  "value' \<lparr>disabled = False, value' = ''X''\<rparr> \<noteq> ''''
   \<and> fst (ClassHeaderCreateLayer_select_onChange ''P1'' ''C''
            (Rejected (Http_json [''message'' \<mapsto> Str ''no such extractor'']))
            (\<lparr>disabled = False, value' = ''X''\<rparr>,
             \<lparr>cache = (\<lambda>p. None), posted = [], displayChanges = [], newLayer = None,
                alerts = []\<rparr>))
       = \<lparr>disabled = False, value' = ''''\<rparr>
   \<and> alerts (snd (ClassHeaderCreateLayer_select_onChange ''P1'' ''C''
            (Rejected (Http_json [''message'' \<mapsto> Str ''no such extractor'']))
            (\<lparr>disabled = False, value' = ''X''\<rparr>,
             \<lparr>cache = (\<lambda>p. None), posted = [], displayChanges = [], newLayer = None,
                alerts = []\<rparr>)))
       = [Str ''no such extractor'']"
proof -
  have h: "value' \<lparr>disabled = False, value' = ''X''\<rparr> \<noteq> ''''" by simp
  show ?thesis
    using h select_onChange_failure [OF h, of "''P1''" "''C''"
        "[''message'' \<mapsto> Str ''no such extractor'']"
        "\<lparr>cache = (\<lambda>p. None), posted = [], displayChanges = [], newLayer = None, alerts = []\<rparr>"]
    by (simp add: member_def)
qed


end
